theory Spec2Isabelle
  imports Complex_Main
begin

section \<open>Numbers\<close>

text \<open>
  The Python sources compute with double-precision floats. Finite floats are modelled as
  exact reals: the rounding error of a single float operation is not part of the model.
  What is part of it are the special values a division by zero produces in numpy
  (see \<open>fl\<close> below) and the decimal rounding of \<^verbatim>\<open>round(x, 2)\<close>.
\<close>

text \<open>Rounding to the nearest integer, ties to the even neighbour (Python 3's \<^verbatim>\<open>round\<close>).\<close>

definition round_half_even :: "real \<Rightarrow> int" where
  "round_half_even y =
     (let f = \<lfloor>y\<rfloor>; d = y - of_int f
      in if d < 1 / 2 then f
         else if 1 / 2 < d then f + 1
         else if even f then f else f + 1)"

text \<open>\<^verbatim>\<open>round(x, 2)\<close> on a finite value.\<close>

definition py_round2 :: "real \<Rightarrow> real" where
  "py_round2 x = of_int (round_half_even (x * 100)) / 100"

section \<open>Timestamps\<close>

datatype error = TypeError | ValueError | KeyError | NameError | RequestError

text \<open>
  A \<^verbatim>\<open>datetime\<close> value: the wall-clock fields as microseconds since the start of the
  calendar, and the UTC offset (in microseconds) when the value is timezone-aware;
  \<open>None\<close> is a naive value.
\<close>

record datetime =
  wall_us :: int
  utcoffset :: "int option"

text \<open>\<^verbatim>\<open>datetime.now()\<close> without an argument is naive; \<open>clock\<close> is the local wall clock.\<close>

definition datetime_now :: "int \<Rightarrow> datetime" where
  "datetime_now clock = \<lparr>wall_us = clock, utcoffset = None\<rparr>"

text \<open>
  \<^verbatim>\<open>a - b\<close> on two datetimes gives a timedelta (microseconds here). Python raises
  TypeError when exactly one of the two is timezone-aware.
\<close>

definition datetime_sub :: "datetime \<Rightarrow> datetime \<Rightarrow> error + int" where
  "datetime_sub a b =
     (case utcoffset a of
        None \<Rightarrow> (case utcoffset b of
                   None \<Rightarrow> Inr (wall_us a - wall_us b)
                 | Some ob \<Rightarrow> Inl TypeError)
      | Some oa \<Rightarrow> (case utcoffset b of
                      None \<Rightarrow> Inl TypeError
                    | Some ob \<Rightarrow> Inr ((wall_us a - oa) - (wall_us b - ob))))"

text \<open>\<^verbatim>\<open>timedelta.days\<close>: whole days, rounded towards minus infinity.\<close>

definition timedelta_days :: "int \<Rightarrow> int" where
  "timedelta_days delta = delta div 86400000000"

text \<open>\<^verbatim>\<open>published_at.replace('Z', '+00:00')\<close>: every \<^verbatim>\<open>Z\<close> is replaced.\<close>

definition replace_Z :: "string \<Rightarrow> string" where
  "replace_Z s = concat (map (\<lambda>c. if c = CHR ''Z'' then ''+00:00'' else [c]) s)"

text \<open>
  \<^verbatim>\<open>_is_recent(published_at, now)\<close>, the same in every puller. The standard library's
  \<^verbatim>\<open>datetime.fromisoformat\<close> is a parameter: \<open>None\<close> stands for its ValueError. The
  bare \<^verbatim>\<open>except\<close> turns every exception of the \<^verbatim>\<open>try\<close> block into \<^verbatim>\<open>False\<close>.
\<close>

definition is_recent :: "(string \<Rightarrow> datetime option) \<Rightarrow> string option \<Rightarrow> datetime \<Rightarrow> bool" where
  "is_recent fromisoformat published_at now =
     (case published_at of
        None \<Rightarrow> False
      | Some s \<Rightarrow>
          if s = [] then False
          else (case fromisoformat (replace_Z s) of
                  None \<Rightarrow> False
                | Some pub_date \<Rightarrow>
                    (case datetime_sub now pub_date of
                       Inl e \<Rightarrow> False
                     | Inr delta \<Rightarrow> timedelta_days delta < 1)))"

section \<open>Articles\<close>

text \<open>
  The JSON of the news provider. A \<^verbatim>\<open>source\<close> object is a list of key/value pairs whose
  values are strings or \<^verbatim>\<open>null\<close>; an absent key and a \<^verbatim>\<open>null\<close> value of an article
  field are both \<open>None\<close> (\<^verbatim>\<open>dict.get\<close> does not tell them apart).
\<close>

type_synonym json_source = "(string \<times> string option) list"

record article =
  title :: "string option"
  source :: "json_source option"
  publishedAt :: "string option"

record news_data =
  articles :: "article list option"
  totalResults :: "int option"

text \<open>\<^verbatim>\<open>if article.get('source')\<close>: the source is present and not the empty object.\<close>

definition has_source :: "article \<Rightarrow> bool" where
  "has_source a = (case source a of None \<Rightarrow> False | Some src \<Rightarrow> src \<noteq> [])"

text \<open>\<^verbatim>\<open>article.get('source', {}).get('name')\<close>: \<open>None\<close> is Python's \<^verbatim>\<open>None\<close>.\<close>

definition source_name :: "article \<Rightarrow> string option" where
  "source_name a =
     (case source a of
        None \<Rightarrow> None
      | Some src \<Rightarrow> (case map_of src ''name'' of None \<Rightarrow> None | Some v \<Rightarrow> v))"

text \<open>\<^verbatim>\<open>len(set(... for article in articles if article.get('source')))\<close>.\<close>

definition unique_sources :: "article list \<Rightarrow> nat" where
  "unique_sources arts = length (remdups (map source_name (filter has_source arts)))"

text \<open>\<^verbatim>\<open>sum(1 for article in articles if self._is_recent(article.get('publishedAt'), now))\<close>.\<close>

definition recent_articles :: "(string \<Rightarrow> datetime option) \<Rightarrow> datetime \<Rightarrow> article list \<Rightarrow> nat" where
  "recent_articles fromisoformat now arts =
     length (filter (\<lambda>a. is_recent fromisoformat (publishedAt a) now) arts)"

section \<open>The standard scorer\<close>

text \<open>
  \<^verbatim>\<open>calculate_pulse_score\<close> of PoliticsDataPuller, TechDataPuller and
  EnvironmentDataPuller (the three bodies are the same). The argument is \<open>None\<close> for
  Python's \<^verbatim>\<open>None\<close>; a dictionary without the key \<^verbatim>\<open>articles\<close> has \<open>articles = None\<close>.
\<close>

definition calculate_pulse_score ::
  "(string \<Rightarrow> datetime option) \<Rightarrow> int \<Rightarrow> news_data option \<Rightarrow> real" where
  "calculate_pulse_score fromisoformat clock news =
     (case news of
        None \<Rightarrow> 0
      | Some nd \<Rightarrow>
          (case articles nd of
             None \<Rightarrow> 0
           | Some arts \<Rightarrow>
               let volume_score = min 40 (real (length arts) / 100 * 40);
                   diversity_score = min 30 (real (unique_sources arts) / 20 * 30);
                   now = datetime_now clock;
                   recency_score = min 30 (real (recent_articles fromisoformat now arts) / 30 * 30)
               in py_round2 (volume_score + diversity_score + recency_score)))"

section \<open>The sports scorer\<close>

definition sports_keywords :: "string list" where
  "sports_keywords = [''super bowl'', ''championship'', ''playoffs'', ''finals'',
     ''world cup'', ''olympics'', ''game'', ''victory'', ''win'', ''score'']"

text \<open>\<^verbatim>\<open>str.lower()\<close> on ASCII text.\<close>

definition lower_char :: "char \<Rightarrow> char" where
  "lower_char c =
     (let n = (of_char c :: nat) in if 65 \<le> n \<and> n \<le> 90 then char_of (n + 32) else c)"

definition lower :: "string \<Rightarrow> string" where
  "lower s = map lower_char s"

text \<open>\<^verbatim>\<open>kw in title\<close>: \<open>kw\<close> is a contiguous part of \<open>s\<close>.\<close>

fun contains :: "string \<Rightarrow> string \<Rightarrow> bool" where
  "contains kw [] = (kw = [])"
| "contains kw (c # cs) = (take (length kw) (c # cs) = kw \<or> contains kw cs)"

text \<open>
  The loop over the articles that adds, for each title, the number of keywords found in
  it: \<^verbatim>\<open>keyword_count += sum(1 for kw in sports_keywords if kw in title)\<close> with
  \<^verbatim>\<open>title = (article.get('title') or '').lower()\<close>.
\<close>

definition title_hits :: "article \<Rightarrow> nat" where
  "title_hits a =
     (let t = lower (case title a of None \<Rightarrow> [] | Some s \<Rightarrow> s)
      in length (filter (\<lambda>kw. contains kw t) sports_keywords))"

fun keyword_count :: "article list \<Rightarrow> nat" where
  "keyword_count [] = 0"
| "keyword_count (a # arts) = title_hits a + keyword_count arts"

text \<open>\<^verbatim>\<open>SportsDataPuller.calculate_pulse_score\<close>; \<^verbatim>\<open>x ** 0.7\<close> is the real power.\<close>

definition sports_calculate_pulse_score ::
  "(string \<Rightarrow> datetime option) \<Rightarrow> int \<Rightarrow> news_data option \<Rightarrow> real" where
  "sports_calculate_pulse_score fromisoformat clock news =
     (case news of
        None \<Rightarrow> 0
      | Some nd \<Rightarrow>
          (case articles nd of
             None \<Rightarrow> 0
           | Some arts \<Rightarrow>
               let article_ratio = real (length arts) / 100;
                   volume_score = min 35 ((article_ratio powr (7 / 10)) * 35);
                   diversity_score = min 25 (real (unique_sources arts) / 20 * 25);
                   now = datetime_now clock;
                   recency_score = min 40 (real (recent_articles fromisoformat now arts) / 20 * 40);
                   keyword_intensity = min 15 (real (keyword_count arts) / 30 * 15);
                   total_score = volume_score + diversity_score + recency_score + keyword_intensity
               in py_round2 (min 100 total_score)))"


section \<open>Float values with the IEEE special cases\<close>

text \<open>
  numpy's \<^verbatim>\<open>float64\<close> does not raise on a division by zero: it returns an infinity or
  NaN (and prints a RuntimeWarning). \<^verbatim>\<open>np.mean\<close> returns such a value, so all the
  arithmetic of the normalization is numpy arithmetic. Zero carries no sign in the model:
  a non-zero value divided by zero takes the sign of the numerator.
\<close>

datatype fl = Fin real | PInf | NInf | NaN

fun fl_neg :: "fl \<Rightarrow> fl" where
  "fl_neg (Fin a) = Fin (- a)"
| "fl_neg PInf = NInf"
| "fl_neg NInf = PInf"
| "fl_neg NaN = NaN"

fun fl_add :: "fl \<Rightarrow> fl \<Rightarrow> fl" where
  "fl_add (Fin a) (Fin b) = Fin (a + b)"
| "fl_add NaN y = NaN"
| "fl_add x NaN = NaN"
| "fl_add PInf NInf = NaN"
| "fl_add NInf PInf = NaN"
| "fl_add PInf y = PInf"
| "fl_add NInf y = NInf"
| "fl_add (Fin a) y = y"

definition fl_sub :: "fl \<Rightarrow> fl \<Rightarrow> fl" where
  "fl_sub x y = fl_add x (fl_neg y)"

text \<open>The infinity with the sign of \<open>a\<close>, NaN for zero (\<^verbatim>\<open>0 * inf\<close>, \<^verbatim>\<open>0 / 0\<close>).\<close>

definition signed_inf :: "real \<Rightarrow> fl" where
  "signed_inf a = (if a = 0 then NaN else if 0 < a then PInf else NInf)"

fun fl_mul :: "fl \<Rightarrow> fl \<Rightarrow> fl" where
  "fl_mul (Fin a) (Fin b) = Fin (a * b)"
| "fl_mul NaN y = NaN"
| "fl_mul x NaN = NaN"
| "fl_mul (Fin a) PInf = signed_inf a"
| "fl_mul (Fin a) NInf = signed_inf (- a)"
| "fl_mul PInf (Fin b) = signed_inf b"
| "fl_mul NInf (Fin b) = signed_inf (- b)"
| "fl_mul PInf PInf = PInf"
| "fl_mul NInf NInf = PInf"
| "fl_mul PInf NInf = NInf"
| "fl_mul NInf PInf = NInf"

fun fl_div :: "fl \<Rightarrow> fl \<Rightarrow> fl" where
  "fl_div (Fin a) (Fin b) = (if b = 0 then signed_inf a else Fin (a / b))"
| "fl_div NaN y = NaN"
| "fl_div x NaN = NaN"
| "fl_div (Fin a) y = Fin 0"
| "fl_div PInf (Fin b) = (if 0 \<le> b then PInf else NInf)"
| "fl_div NInf (Fin b) = (if 0 \<le> b then NInf else PInf)"
| "fl_div x y = NaN"

text \<open>Comparisons: every comparison with NaN is false.\<close>

fun fl_less :: "fl \<Rightarrow> fl \<Rightarrow> bool" where
  "fl_less (Fin a) (Fin b) = (a < b)"
| "fl_less NaN y = False"
| "fl_less x NaN = False"
| "fl_less PInf y = False"
| "fl_less x NInf = False"
| "fl_less x y = True"

fun fl_le :: "fl \<Rightarrow> fl \<Rightarrow> bool" where
  "fl_le (Fin a) (Fin b) = (a \<le> b)"
| "fl_le NaN y = False"
| "fl_le x NaN = False"
| "fl_le NInf y = True"
| "fl_le x PInf = True"
| "fl_le x y = False"

text \<open>
  Python's built-in \<^verbatim>\<open>min(a, b)\<close> and \<^verbatim>\<open>max(a, b)\<close>: the first argument stays
  unless the second compares strictly smaller (greater).
\<close>

definition py_min2 :: "fl \<Rightarrow> fl \<Rightarrow> fl" where
  "py_min2 a b = (if fl_less b a then b else a)"

definition py_max2 :: "fl \<Rightarrow> fl \<Rightarrow> fl" where
  "py_max2 a b = (if fl_less a b then b else a)"

text \<open>\<^verbatim>\<open>max(scores)\<close> and \<^verbatim>\<open>min(scores)\<close> raise ValueError on an empty list.\<close>

definition py_max :: "fl list \<Rightarrow> error + fl" where
  "py_max xs = (case xs of [] \<Rightarrow> Inl ValueError | x # rest \<Rightarrow> Inr (foldl py_max2 x rest))"

definition py_min :: "fl list \<Rightarrow> error + fl" where
  "py_min xs = (case xs of [] \<Rightarrow> Inl ValueError | x # rest \<Rightarrow> Inr (foldl py_min2 x rest))"

text \<open>\<^verbatim>\<open>np.mean(scores)\<close>: the sum divided by the count (NaN for the empty list).\<close>

definition np_mean :: "fl list \<Rightarrow> fl" where
  "np_mean xs = fl_div (foldl fl_add (Fin 0) xs) (Fin (real (length xs)))"

text \<open>\<^verbatim>\<open>round(x, 2)\<close>: infinities and NaN are returned as they are.\<close>

fun fl_round2 :: "fl \<Rightarrow> fl" where
  "fl_round2 (Fin a) = Fin (py_round2 a)"
| "fl_round2 x = x"

section \<open>Pulse records\<close>

text \<open>
  The dictionaries the pullers return. A number is a float or an integer of Python; the
  two are not told apart.
\<close>

datatype pyval = PyStr string | PyNum fl

type_synonym pydict = "string \<rightharpoonup> pyval"

text \<open>The dictionary literal that every \<^verbatim>\<open>get_*_pulse\<close> returns.\<close>

definition pulse_record :: "string \<Rightarrow> real \<Rightarrow> news_data \<Rightarrow> string \<Rightarrow> int \<Rightarrow> pydict" where
  "pulse_record category pulse_score nd stamp days_back =
     [''category'' \<mapsto> PyStr category,
      ''pulse_score'' \<mapsto> PyNum (Fin pulse_score),
      ''article_count'' \<mapsto>
         PyNum (Fin (real (length (case articles nd of None \<Rightarrow> [] | Some arts \<Rightarrow> arts)))),
      ''total_results'' \<mapsto>
         PyNum (Fin (of_int (case totalResults nd of None \<Rightarrow> 0 | Some n \<Rightarrow> n))),
      ''timestamp'' \<mapsto> PyStr stamp,
      ''days_analyzed'' \<mapsto> PyNum (Fin (of_int days_back))]"

text \<open>
  \<^verbatim>\<open>get_sports_pulse\<close>. \<open>fetched\<close> is what \<^verbatim>\<open>fetch_sports_news\<close> did: it raised
  (no API key, a failed request) or returned the provider's JSON. \<open>stamp\<close> is
  \<^verbatim>\<open>datetime.now().isoformat()\<close>.
\<close>

definition get_sports_pulse ::
  "(error + news_data) \<Rightarrow> (string \<Rightarrow> datetime option) \<Rightarrow> int \<Rightarrow> string \<Rightarrow> int \<Rightarrow> error + pydict" where
  "get_sports_pulse fetched fromisoformat clock stamp days_back =
     (case fetched of
        Inl e \<Rightarrow> Inl e
      | Inr nd \<Rightarrow>
          Inr (pulse_record ''Sports''
                 (sports_calculate_pulse_score fromisoformat clock (Some nd)) nd stamp days_back))"

text \<open>
  \<^verbatim>\<open>get_politics_pulse\<close>, \<^verbatim>\<open>get_tech_pulse\<close> and \<^verbatim>\<open>get_environment_pulse\<close> differ in
  the category name only.
\<close>

definition standard_pulse ::
  "string \<Rightarrow> (error + news_data) \<Rightarrow> (string \<Rightarrow> datetime option) \<Rightarrow> int \<Rightarrow> string \<Rightarrow> int
     \<Rightarrow> error + pydict" where
  "standard_pulse category fetched fromisoformat clock stamp days_back =
     (case fetched of
        Inl e \<Rightarrow> Inl e
      | Inr nd \<Rightarrow>
          Inr (pulse_record category
                 (calculate_pulse_score fromisoformat clock (Some nd)) nd stamp days_back))"

definition get_politics_pulse ::
  "(error + news_data) \<Rightarrow> (string \<Rightarrow> datetime option) \<Rightarrow> int \<Rightarrow> string \<Rightarrow> int \<Rightarrow> error + pydict" where
  "get_politics_pulse = standard_pulse ''Politics''"

definition get_tech_pulse ::
  "(error + news_data) \<Rightarrow> (string \<Rightarrow> datetime option) \<Rightarrow> int \<Rightarrow> string \<Rightarrow> int \<Rightarrow> error + pydict" where
  "get_tech_pulse = standard_pulse ''Tech/Science''"

definition get_environment_pulse ::
  "(error + news_data) \<Rightarrow> (string \<Rightarrow> datetime option) \<Rightarrow> int \<Rightarrow> string \<Rightarrow> int \<Rightarrow> error + pydict" where
  "get_environment_pulse = standard_pulse ''Environment''"

text \<open>
  Modelled from the spec: the pullers of Economy, Trends, Entertainment and Health, which
  RadarChart.py imports from files that are not among the sources. The spec gives them the
  standard profile ("politics, technology, economy, trends, entertainment, health,
  environment -- all share one formula") and the record layout of section 6.
\<close>

definition get_economy_pulse ::
  "(error + news_data) \<Rightarrow> (string \<Rightarrow> datetime option) \<Rightarrow> int \<Rightarrow> string \<Rightarrow> int \<Rightarrow> error + pydict" where
  "get_economy_pulse = standard_pulse ''Economy''"

definition get_trends_pulse ::
  "(error + news_data) \<Rightarrow> (string \<Rightarrow> datetime option) \<Rightarrow> int \<Rightarrow> string \<Rightarrow> int \<Rightarrow> error + pydict" where
  "get_trends_pulse = standard_pulse ''Trends''"

definition get_entertainment_pulse ::
  "(error + news_data) \<Rightarrow> (string \<Rightarrow> datetime option) \<Rightarrow> int \<Rightarrow> string \<Rightarrow> int \<Rightarrow> error + pydict" where
  "get_entertainment_pulse = standard_pulse ''Entertainment''"

definition get_health_pulse ::
  "(error + news_data) \<Rightarrow> (string \<Rightarrow> datetime option) \<Rightarrow> int \<Rightarrow> string \<Rightarrow> int \<Rightarrow> error + pydict" where
  "get_health_pulse = standard_pulse ''Health''"


section \<open>Collecting the categories\<close>

definition pullers :: "string list" where
  "pullers = [''Sports'', ''Politics'', ''Tech/Science'', ''Economy'', ''Trends'',
     ''Entertainment'', ''Health'', ''Environment'']"

text \<open>
  The \<^verbatim>\<open>if\<close>/\<^verbatim>\<open>elif\<close> chain of \<^verbatim>\<open>collect_all_data\<close> that calls the puller of a
  category; \<open>fetch category\<close> is what the puller's request did. With no branch taken,
  \<^verbatim>\<open>data\<close> is unbound at \<^verbatim>\<open>all_data.append(data)\<close>.
\<close>

definition get_pulse ::
  "(string \<Rightarrow> error + news_data) \<Rightarrow> (string \<Rightarrow> datetime option) \<Rightarrow> int \<Rightarrow> string \<Rightarrow> int
     \<Rightarrow> string \<Rightarrow> error + pydict" where
  "get_pulse fetch fromisoformat clock stamp days_back category =
     (if category = ''Sports'' then
        get_sports_pulse (fetch category) fromisoformat clock stamp days_back
      else if category = ''Politics'' then
        get_politics_pulse (fetch category) fromisoformat clock stamp days_back
      else if category = ''Tech/Science'' then
        get_tech_pulse (fetch category) fromisoformat clock stamp days_back
      else if category = ''Economy'' then
        get_economy_pulse (fetch category) fromisoformat clock stamp days_back
      else if category = ''Trends'' then
        get_trends_pulse (fetch category) fromisoformat clock stamp days_back
      else if category = ''Entertainment'' then
        get_entertainment_pulse (fetch category) fromisoformat clock stamp days_back
      else if category = ''Health'' then
        get_health_pulse (fetch category) fromisoformat clock stamp days_back
      else if category = ''Environment'' then
        get_environment_pulse (fetch category) fromisoformat clock stamp days_back
      else Inl NameError)"

text \<open>The placeholder of the \<^verbatim>\<open>except\<close> branch.\<close>

definition placeholder :: "string \<Rightarrow> pydict" where
  "placeholder category =
     [''category'' \<mapsto> PyStr category,
      ''pulse_score'' \<mapsto> PyNum (Fin 0),
      ''article_count'' \<mapsto> PyNum (Fin 0),
      ''total_results'' \<mapsto> PyNum (Fin 0)]"

text \<open>
  The loop over the pullers. Inside the \<^verbatim>\<open>try\<close>, \<^verbatim>\<open>data\<close> is appended before the
  \<^verbatim>\<open>print\<close> reads \<^verbatim>\<open>data['pulse_score']\<close>: a record without that key would stay in
  the list and be followed by the placeholder.
\<close>

fun collect_loop :: "(string \<Rightarrow> error + pydict) \<Rightarrow> string list \<Rightarrow> pydict list \<Rightarrow> pydict list" where
  "collect_loop get [] all_data = all_data"
| "collect_loop get (category # rest) all_data =
     (case get category of
        Inl e \<Rightarrow> collect_loop get rest (all_data @ [placeholder category])
      | Inr data \<Rightarrow>
          (case data ''pulse_score'' of
             None \<Rightarrow> collect_loop get rest (all_data @ [data, placeholder category])
           | Some v \<Rightarrow> collect_loop get rest (all_data @ [data])))"

definition collect_all_data ::
  "(string \<Rightarrow> error + news_data) \<Rightarrow> (string \<Rightarrow> datetime option) \<Rightarrow> int \<Rightarrow> string \<Rightarrow> int
     \<Rightarrow> pydict list" where
  "collect_all_data fetch fromisoformat clock stamp days_back =
     collect_loop (get_pulse fetch fromisoformat clock stamp days_back) pullers []"

section \<open>Relative normalization\<close>

text \<open>\<^verbatim>\<open>scores = [d['pulse_score'] for d in data]\<close>: KeyError at the first record without a score.\<close>

fun lookup_scores :: "pydict list \<Rightarrow> error + pyval list" where
  "lookup_scores [] = Inr []"
| "lookup_scores (d # ds) =
     (case d ''pulse_score'' of
        None \<Rightarrow> Inl KeyError
      | Some v \<Rightarrow> (case lookup_scores ds of Inl e \<Rightarrow> Inl e | Inr vs \<Rightarrow> Inr (v # vs)))"

text \<open>The scores as numbers; \<^verbatim>\<open>np.mean\<close> raises TypeError on a string.\<close>

fun as_numbers :: "pyval list \<Rightarrow> error + fl list" where
  "as_numbers [] = Inr []"
| "as_numbers (PyStr s # vs) = Inl TypeError"
| "as_numbers (PyNum x # vs) =
     (case as_numbers vs of Inl e \<Rightarrow> Inl e | Inr xs \<Rightarrow> Inr (x # xs))"

text \<open>
  Lines 110 to 113: the scores, their maximum and minimum (computed, never used) and
  their mean.
\<close>

definition average_score :: "pydict list \<Rightarrow> error + fl" where
  "average_score data =
     (case lookup_scores data of
        Inl e \<Rightarrow> Inl e
      | Inr vals \<Rightarrow>
          (case as_numbers vals of
             Inl e \<Rightarrow> Inl e
           | Inr scores \<Rightarrow>
               (case py_max scores of
                  Inl e \<Rightarrow> Inl e
                | Inr max_score \<Rightarrow>
                    (case py_min scores of
                       Inl e \<Rightarrow> Inl e
                     | Inr min_score \<Rightarrow> Inr (np_mean scores)))))"

text \<open>The \<^verbatim>\<open>if\<close>/\<^verbatim>\<open>else\<close> of the loop body.\<close>

definition new_score :: "fl \<Rightarrow> fl \<Rightarrow> fl" where
  "new_score avg_score original_score =
     (if fl_le avg_score original_score then
        let boost_factor =
              fl_add (Fin 1) (fl_mul (fl_div (fl_sub original_score avg_score) avg_score) (Fin 2))
        in py_min2 (Fin 100) (fl_mul original_score boost_factor)
      else
        let suppress_factor = fl_div original_score avg_score
        in fl_mul (fl_mul original_score suppress_factor) (Fin (8 / 10)))"

text \<open>
  One pass of the loop body: read \<^verbatim>\<open>d['pulse_score']\<close>, compute the new score and build
  \<^verbatim>\<open>{**d, 'pulse_score': round(new_score, 2), 'original_score': original_score}\<close>.
\<close>

definition normalize_entry :: "fl \<Rightarrow> pydict \<Rightarrow> error + pydict" where
  "normalize_entry avg_score d =
     (case d ''pulse_score'' of
        None \<Rightarrow> Inl KeyError
      | Some (PyStr s) \<Rightarrow> Inl TypeError
      | Some (PyNum original_score) \<Rightarrow>
          Inr (d(''pulse_score'' \<mapsto> PyNum (fl_round2 (new_score avg_score original_score)),
                 ''original_score'' \<mapsto> PyNum original_score)))"

fun normalize_loop :: "fl \<Rightarrow> pydict list \<Rightarrow> pydict list \<Rightarrow> error + pydict list" where
  "normalize_loop avg_score [] normalized_data = Inr normalized_data"
| "normalize_loop avg_score (d # ds) normalized_data =
     (case normalize_entry avg_score d of
        Inl e \<Rightarrow> Inl e
      | Inr nd \<Rightarrow> normalize_loop avg_score ds (normalized_data @ [nd]))"

definition normalize_scores_relative :: "pydict list \<Rightarrow> error + pydict list" where
  "normalize_scores_relative data =
     (if data = [] then Inr data
      else (case average_score data of
              Inl e \<Rightarrow> Inl e
            | Inr avg_score \<Rightarrow> normalize_loop avg_score data []))"

subsection \<open>The same transform on a store of dictionaries\<close>

text \<open>
  Python lists hold references. To say which dictionaries the transform writes, the
  dictionaries live in a store (a reference is an index into it) and \<^verbatim>\<open>data\<close> is a list
  of references. \<^verbatim>\<open>{**d, ...}\<close> allocates a dictionary; nothing in the function assigns
  into an existing one.
\<close>

type_synonym store = "pydict list"

fun normalize_loop_refs :: "fl \<Rightarrow> store \<Rightarrow> nat list \<Rightarrow> nat list \<Rightarrow> error + store \<times> nat list" where
  "normalize_loop_refs avg_score h [] normalized_data = Inr (h, normalized_data)"
| "normalize_loop_refs avg_score h (r # rs) normalized_data =
     (case normalize_entry avg_score (h ! r) of
        Inl e \<Rightarrow> Inl e
      | Inr nd \<Rightarrow> normalize_loop_refs avg_score (h @ [nd]) rs (normalized_data @ [length h]))"

definition normalize_scores_relative_refs :: "store \<Rightarrow> nat list \<Rightarrow> error + store \<times> nat list" where
  "normalize_scores_relative_refs h data =
     (if data = [] then Inr (h, data)
      else (case average_score (map (\<lambda>r. h ! r) data) of
              Inl e \<Rightarrow> Inl e
            | Inr avg_score \<Rightarrow> normalize_loop_refs avg_score h data []))"

section \<open>The specification's wording, for comparison\<close>





text \<open>The raw score of a record as a real, and the arithmetic mean of a list of records.\<close>

definition raw_score :: "pydict \<Rightarrow> real" where
  "raw_score d = (case d ''pulse_score'' of Some (PyNum (Fin x)) \<Rightarrow> x | _ \<Rightarrow> 0)"

definition mean_raw :: "pydict list \<Rightarrow> real" where
  "mean_raw data = sum_list (map raw_score data) / real (length data)"


section \<open>Auxiliary functions for the proofs\<close>

text \<open>The numeric score of a record, and the record the loop body builds from it.\<close>

definition score_value :: "pydict \<Rightarrow> fl" where
  "score_value d = (case d ''pulse_score'' of Some (PyNum x) \<Rightarrow> x | _ \<Rightarrow> NaN)"

definition normalized_record :: "fl \<Rightarrow> pydict \<Rightarrow> pydict" where
  "normalized_record avg_score d =
     d(''pulse_score'' \<mapsto> PyNum (fl_round2 (new_score avg_score (score_value d))),
       ''original_score'' \<mapsto> PyNum (score_value d))"

section \<open>Decimal rounding\<close>

lemma round_half_even_of_int: "round_half_even (of_int k) = k"
  by (simp add: round_half_even_def)

lemma round_half_even_ge_floor: "\<lfloor>y\<rfloor> \<le> round_half_even y"
  by (simp add: round_half_even_def Let_def)

lemma round_half_even_le_floor1: "round_half_even y \<le> \<lfloor>y\<rfloor> + 1"
  by (simp add: round_half_even_def Let_def)

lemma round_half_even_mono:
  assumes "x \<le> y"
  shows "round_half_even x \<le> round_half_even y"
proof (cases "\<lfloor>x\<rfloor> = \<lfloor>y\<rfloor>")
  case True
  with assms have "x - of_int \<lfloor>x\<rfloor> \<le> y - of_int \<lfloor>x\<rfloor>" by simp
  with True show ?thesis
    by (auto simp add: round_half_even_def Let_def)
next
  case False
  from assms have "\<lfloor>x\<rfloor> \<le> \<lfloor>y\<rfloor>" by (rule floor_mono)
  with False have "\<lfloor>x\<rfloor> + 1 \<le> \<lfloor>y\<rfloor>" by simp
  with round_half_even_le_floor1 [of x] round_half_even_ge_floor [of y]
  show ?thesis by linarith
qed

lemma py_round2_mono: "x \<le> y \<Longrightarrow> py_round2 x \<le> py_round2 y"
  by (simp add: py_round2_def round_half_even_mono divide_right_mono)

lemma py_round2_grid: "py_round2 (of_int k / 100) = of_int k / 100"
  by (simp add: py_round2_def round_half_even_of_int)

lemma py_round2_0: "py_round2 0 = 0"
  using py_round2_grid [of 0] by simp

lemma py_round2_100: "py_round2 100 = 100"
  using py_round2_grid [of 10000] by simp





lemma py_round2_range: "0 \<le> x \<Longrightarrow> x \<le> 100 \<Longrightarrow> 0 \<le> py_round2 x \<and> py_round2 x \<le> 100"
  using py_round2_mono [of 0 x] py_round2_mono [of x 100]
  by (simp add: py_round2_0 py_round2_100)

lemma py_round2_on_grid:
  assumes "0 \<le> x" and "x \<le> 100"
  shows "\<exists>k::int. 0 \<le> k \<and> k \<le> 10000 \<and> py_round2 x = of_int k / 100"
proof -
  define k where "k = round_half_even (x * 100)"
  have eq: "py_round2 x = of_int k / 100" by (simp add: py_round2_def k_def)
  from py_round2_range [OF assms] eq have "0 \<le> real_of_int k / 100" "real_of_int k / 100 \<le> 100"
    by simp_all
  then have "0 \<le> k" "k \<le> 10000" by simp_all
  with eq show ?thesis by blast
qed

section \<open>The scorers\<close>



lemma calculate_pulse_score_shape:
  "\<exists>x. 0 \<le> x \<and> x \<le> 100 \<and> calculate_pulse_score fromiso clock news = py_round2 x"
proof (cases news)
  case None
  then have "calculate_pulse_score fromiso clock news = py_round2 0"
    by (simp add: calculate_pulse_score_def py_round2_0)
  then show ?thesis by (intro exI [of _ 0]) simp
next
  case (Some nd)
  show ?thesis
  proof (cases "articles nd")
    case None
    with Some have "calculate_pulse_score fromiso clock news = py_round2 0"
      by (simp add: calculate_pulse_score_def py_round2_0)
    then show ?thesis by (intro exI [of _ 0]) simp
  next
    case (Some arts)
    define total where "total = min 40 (real (length arts) / 100 * 40)
        + min 30 (real (unique_sources arts) / 20 * 30)
        + min 30 (real (recent_articles fromiso (datetime_now clock) arts) / 30 * 30)"
    have "0 \<le> total" by (simp add: total_def)
    moreover have "total \<le> 100" by (simp add: total_def)
    moreover from Some \<open>news = Some nd\<close>
    have "calculate_pulse_score fromiso clock news = py_round2 total"
      by (simp add: calculate_pulse_score_def Let_def total_def)
    ultimately show ?thesis by blast
  qed
qed

lemma sports_calculate_pulse_score_shape:
  "\<exists>x. 0 \<le> x \<and> x \<le> 100 \<and> sports_calculate_pulse_score fromiso clock news = py_round2 x"
proof (cases news)
  case None
  then have "sports_calculate_pulse_score fromiso clock news = py_round2 0"
    by (simp add: sports_calculate_pulse_score_def py_round2_0)
  then show ?thesis by (intro exI [of _ 0]) simp
next
  case (Some nd)
  show ?thesis
  proof (cases "articles nd")
    case None
    with Some have "sports_calculate_pulse_score fromiso clock news = py_round2 0"
      by (simp add: sports_calculate_pulse_score_def py_round2_0)
    then show ?thesis by (intro exI [of _ 0]) simp
  next
    case (Some arts)
    define total where "total = min 100
       (min 35 ((real (length arts) / 100) powr (7 / 10) * 35)
        + min 25 (real (unique_sources arts) / 20 * 25)
        + min 40 (real (recent_articles fromiso (datetime_now clock) arts) / 20 * 40)
        + min 15 (real (keyword_count arts) / 30 * 15))"
    have "0 \<le> total" by (simp add: total_def)
    moreover have "total \<le> 100" by (simp add: total_def)
    moreover from Some \<open>news = Some nd\<close>
    have "sports_calculate_pulse_score fromiso clock news = py_round2 total"
      by (simp add: sports_calculate_pulse_score_def Let_def total_def)
    ultimately show ?thesis by blast
  qed
qed

text \<open>
  Claim C4. For both profiles and every input the pulse score lies in the closed
  interval from 0 to 100; the keyword bonus of the sports profile cannot push it above
  100.
\<close>

theorem pulse_score_range:
  "0 \<le> calculate_pulse_score fromiso clock news
   \<and> calculate_pulse_score fromiso clock news \<le> 100
   \<and> 0 \<le> sports_calculate_pulse_score fromiso clock news
   \<and> sports_calculate_pulse_score fromiso clock news \<le> 100"
proof -
  from calculate_pulse_score_shape obtain x where "0 \<le> x" "x \<le> 100"
    and "calculate_pulse_score fromiso clock news = py_round2 x" by blast
  then have std: "0 \<le> calculate_pulse_score fromiso clock news
      \<and> calculate_pulse_score fromiso clock news \<le> 100"
    by (simp add: py_round2_range)
  from sports_calculate_pulse_score_shape obtain y where "0 \<le> y" "y \<le> 100"
    and "sports_calculate_pulse_score fromiso clock news = py_round2 y" by blast
  then have "0 \<le> sports_calculate_pulse_score fromiso clock news
      \<and> sports_calculate_pulse_score fromiso clock news \<le> 100"
    by (simp add: py_round2_range)
  with std show ?thesis by simp
qed

lemma contains_iff: "contains kw s \<longleftrightarrow> (\<exists>pre post. s = pre @ kw @ post)"
proof (induction s)
  case Nil
  then show ?case by auto
next
  case (Cons c cs)
  have a: "take (length kw) (c # cs) = kw \<longleftrightarrow> (\<exists>post. c # cs = kw @ post)"
    by (metis append_eq_conv_conj append_take_drop_id)
  have b: "(\<exists>pre post. c # cs = pre @ kw @ post) \<longleftrightarrow>
        (\<exists>post. c # cs = kw @ post) \<or> (\<exists>pre post. cs = pre @ kw @ post)"
  proof
    assume "\<exists>pre post. c # cs = pre @ kw @ post"
    then obtain pre post where e: "c # cs = pre @ kw @ post" by blast
    show "(\<exists>post. c # cs = kw @ post) \<or> (\<exists>pre post. cs = pre @ kw @ post)"
    proof (cases pre)
      case Nil
      with e show ?thesis by auto
    next
      case (Cons p ps)
      with e have "cs = ps @ kw @ post" by simp
      then show ?thesis by blast
    qed
  next
    assume "(\<exists>post. c # cs = kw @ post) \<or> (\<exists>pre post. cs = pre @ kw @ post)"
    then show "\<exists>pre post. c # cs = pre @ kw @ post"
    proof
      assume "\<exists>post. c # cs = kw @ post"
      then obtain post where "c # cs = [] @ kw @ post" by auto
      then show ?thesis by blast
    next
      assume "\<exists>pre post. cs = pre @ kw @ post"
      then obtain pre post where "c # cs = (c # pre) @ kw @ post" by auto
      then show ?thesis by blast
    qed
  qed
  from Cons a b show ?case by simp
qed







section \<open>Recency\<close>

lemma is_recent_naive:
  "s \<noteq> [] \<Longrightarrow> fromiso (replace_Z s) = Some pub \<Longrightarrow> utcoffset pub = None \<Longrightarrow>
   is_recent fromiso (Some s) (datetime_now clock) = (clock - wall_us pub < 86400000000)"
  by (simp add: is_recent_def datetime_sub_def datetime_now_def timedelta_days_def) linarith

lemma is_recent_unparsable:
  "\<not> is_recent fromiso None now \<and> \<not> is_recent fromiso (Some []) now
   \<and> (fromiso (replace_Z s) = None \<longrightarrow> \<not> is_recent fromiso (Some s) now)"
  by (simp add: is_recent_def)

text \<open>
  Claim C7 says that a present, parseable timestamp less than one day older than now is
  recent. The code departs from it on every timezone-aware timestamp: the parsed value
  is aware, \<^verbatim>\<open>datetime.now()\<close> is naive, the subtraction raises TypeError and the bare
  \<^verbatim>\<open>except\<close> answers \<^verbatim>\<open>False\<close>, whatever the age of the article. The provider's
  timestamps end in \<^verbatim>\<open>Z\<close>, which the code itself rewrites to the offset
  \<^verbatim>\<open>+00:00\<close>, so they are all of this kind.
\<close>

theorem is_recent_aware_timestamp:
  assumes parsed: "fromiso (replace_Z s) = Some pub"
    and aware: "utcoffset pub = Some off"
  shows "\<not> is_recent fromiso (Some s) (datetime_now clock)"
proof (cases "s = []")
  case True
  then show ?thesis by (simp add: is_recent_def)
next
  case False
  from aware have "datetime_sub (datetime_now clock) pub = Inl TypeError"
    by (simp add: datetime_sub_def datetime_now_def)
  with False parsed show ?thesis by (simp add: is_recent_def)
qed

lemma replace_Z_example: "replace_Z ''2024-01-15T10:30:00Z'' = ''2024-01-15T10:30:00+00:00''"
  by (simp add: replace_Z_def)

text \<open>
  The timestamp \<^verbatim>\<open>2024-01-15T10:30:00Z\<close>, read one hour later: not recent for the code.
\<close>

theorem is_recent_aware_timestamp_witness:
  "[''2024-01-15T10:30:00+00:00'' \<mapsto> \<lparr>wall_us = 63840911400000000, utcoffset = Some 0\<rparr>]
      (replace_Z ''2024-01-15T10:30:00Z'')
     = Some \<lparr>wall_us = 63840911400000000, utcoffset = Some 0\<rparr>
   \<and> utcoffset \<lparr>wall_us = 63840911400000000, utcoffset = Some 0\<rparr> = Some 0
   \<and> \<not> is_recent
        [''2024-01-15T10:30:00+00:00'' \<mapsto> \<lparr>wall_us = 63840911400000000, utcoffset = Some 0\<rparr>]
        (Some ''2024-01-15T10:30:00Z'') (datetime_now 63840915000000000)"
  using is_recent_aware_timestamp
    [of "[''2024-01-15T10:30:00+00:00'' \<mapsto> \<lparr>wall_us = 63840911400000000, utcoffset = Some 0\<rparr>]"
        "''2024-01-15T10:30:00Z''" "\<lparr>wall_us = 63840911400000000, utcoffset = Some 0\<rparr>" 0
        63840915000000000]
  by (simp add: replace_Z_example)

lemma naive_example:
  "is_recent
        [''2024-01-15T10:30:00'' \<mapsto> \<lparr>wall_us = 63840911400000000, utcoffset = None\<rparr>]
        (Some ''2024-01-15T10:30:00'') (datetime_now 63840915000000000)"
  by (simp add: is_recent_def replace_Z_def datetime_sub_def datetime_now_def timedelta_days_def)

section \<open>Source diversity\<close>





section \<open>Collection\<close>

lemma get_pulse_sports:
  "get_pulse fetch fromiso clock stamp days ''Sports'' =
     get_sports_pulse (fetch ''Sports'') fromiso clock stamp days"
  by (simp add: get_pulse_def)

lemma get_pulse_politics:
  "get_pulse fetch fromiso clock stamp days ''Politics'' =
     standard_pulse ''Politics'' (fetch ''Politics'') fromiso clock stamp days"
  by (simp add: get_pulse_def get_politics_pulse_def)

lemma get_pulse_tech:
  "get_pulse fetch fromiso clock stamp days ''Tech/Science'' =
     standard_pulse ''Tech/Science'' (fetch ''Tech/Science'') fromiso clock stamp days"
  by (simp add: get_pulse_def get_tech_pulse_def)

lemma get_pulse_economy:
  "get_pulse fetch fromiso clock stamp days ''Economy'' =
     standard_pulse ''Economy'' (fetch ''Economy'') fromiso clock stamp days"
  by (simp add: get_pulse_def get_economy_pulse_def)

lemma get_pulse_trends:
  "get_pulse fetch fromiso clock stamp days ''Trends'' =
     standard_pulse ''Trends'' (fetch ''Trends'') fromiso clock stamp days"
  by (simp add: get_pulse_def get_trends_pulse_def)

lemma get_pulse_entertainment:
  "get_pulse fetch fromiso clock stamp days ''Entertainment'' =
     standard_pulse ''Entertainment'' (fetch ''Entertainment'') fromiso clock stamp days"
  by (simp add: get_pulse_def get_entertainment_pulse_def)

lemma get_pulse_health:
  "get_pulse fetch fromiso clock stamp days ''Health'' =
     standard_pulse ''Health'' (fetch ''Health'') fromiso clock stamp days"
  by (simp add: get_pulse_def get_health_pulse_def)

lemma get_pulse_environment:
  "get_pulse fetch fromiso clock stamp days ''Environment'' =
     standard_pulse ''Environment'' (fetch ''Environment'') fromiso clock stamp days"
  by (simp add: get_pulse_def get_environment_pulse_def)

lemma standard_pulse_cases:
  "c \<noteq> ''Sports'' \<Longrightarrow>
   standard_pulse c fetched fromiso clock stamp days =
     (case fetched of
        Inl e \<Rightarrow> Inl e
      | Inr nd \<Rightarrow>
          Inr (pulse_record c
                 (if c = ''Sports'' then sports_calculate_pulse_score fromiso clock (Some nd)
                  else calculate_pulse_score fromiso clock (Some nd)) nd stamp days))"
  by (simp add: standard_pulse_def split: sum.splits)

lemma get_pulse_cases:
  assumes "c \<in> set pullers"
  shows "get_pulse fetch fromiso clock stamp days c =
     (case fetch c of
        Inl e \<Rightarrow> Inl e
      | Inr nd \<Rightarrow>
          Inr (pulse_record c
                 (if c = ''Sports'' then sports_calculate_pulse_score fromiso clock (Some nd)
                  else calculate_pulse_score fromiso clock (Some nd)) nd stamp days))"
proof -
  from assms consider "c = ''Sports''" | "c = ''Politics''" | "c = ''Tech/Science''"
    | "c = ''Economy''" | "c = ''Trends''" | "c = ''Entertainment''" | "c = ''Health''"
    | "c = ''Environment''"
    unfolding pullers_def by fastforce
  then show ?thesis
  proof cases
    case 1
    then show ?thesis by (simp only: get_pulse_sports) (simp add: get_sports_pulse_def split: sum.splits)
  next
    case 2
    then show ?thesis by (simp only: get_pulse_politics) (simp add: standard_pulse_cases)
  next
    case 3
    then show ?thesis by (simp only: get_pulse_tech) (simp add: standard_pulse_cases)
  next
    case 4
    then show ?thesis by (simp only: get_pulse_economy) (simp add: standard_pulse_cases)
  next
    case 5
    then show ?thesis by (simp only: get_pulse_trends) (simp add: standard_pulse_cases)
  next
    case 6
    then show ?thesis by (simp only: get_pulse_entertainment) (simp add: standard_pulse_cases)
  next
    case 7
    then show ?thesis by (simp only: get_pulse_health) (simp add: standard_pulse_cases)
  next
    case 8
    then show ?thesis by (simp only: get_pulse_environment) (simp add: standard_pulse_cases)
  qed
qed

lemma pulse_record_has_score:
  "pulse_record c x nd stamp days ''pulse_score'' = Some (PyNum (Fin x))"
  by (simp add: pulse_record_def)

lemma pulse_record_category:
  "pulse_record c x nd stamp days ''category'' = Some (PyStr c)"
  by (simp add: pulse_record_def)

lemma placeholder_category: "placeholder c ''category'' = Some (PyStr c)"
  by (simp add: placeholder_def)

lemma collect_loop_map:
  assumes "\<forall>c\<in>set cs. \<forall>d. get c = Inr d \<longrightarrow> d ''pulse_score'' \<noteq> None"
  shows "collect_loop get cs acc =
           acc @ map (\<lambda>c. case get c of Inl e \<Rightarrow> placeholder c | Inr d \<Rightarrow> d) cs"
  using assms
proof (induction cs arbitrary: acc)
  case Nil
  then show ?case by simp
next
  case (Cons c cs)
  from Cons.prems have rest: "\<forall>c\<in>set cs. \<forall>d. get c = Inr d \<longrightarrow> d ''pulse_score'' \<noteq> None"
    by simp
  have IH: "collect_loop get cs acc' =
      acc' @ map (\<lambda>c. case get c of Inl e \<Rightarrow> placeholder c | Inr d \<Rightarrow> d) cs" for acc'
    using Cons.IH [OF rest] .
  show ?case
  proof (cases "get c")
    case (Inl e)
    then show ?thesis by (simp add: IH)
  next
    case (Inr d)
    with Cons.prems obtain v where "d ''pulse_score'' = Some v" by auto
    with Inr show ?thesis by (simp add: IH)
  qed
qed

lemma collect_all_data_map:
  "collect_all_data fetch fromiso clock stamp days =
     map (\<lambda>c. case fetch c of
            Inl e \<Rightarrow> placeholder c
          | Inr nd \<Rightarrow>
              pulse_record c
                (if c = ''Sports'' then sports_calculate_pulse_score fromiso clock (Some nd)
                 else calculate_pulse_score fromiso clock (Some nd)) nd stamp days) pullers"
proof -
  have "collect_all_data fetch fromiso clock stamp days =
      map (\<lambda>c. case get_pulse fetch fromiso clock stamp days c of
                  Inl e \<Rightarrow> placeholder c | Inr d \<Rightarrow> d) pullers"
    unfolding collect_all_data_def
  proof -
    have "\<forall>c\<in>set pullers. \<forall>d. get_pulse fetch fromiso clock stamp days c = Inr d
            \<longrightarrow> d ''pulse_score'' \<noteq> None"
      by (auto simp add: get_pulse_cases pulse_record_has_score split: sum.splits)
    then show "collect_loop (get_pulse fetch fromiso clock stamp days) pullers [] =
       map (\<lambda>c. case get_pulse fetch fromiso clock stamp days c of
                  Inl e \<Rightarrow> placeholder c | Inr d \<Rightarrow> d) pullers"
      by (simp add: collect_loop_map)
  qed
  also have "\<dots> = map (\<lambda>c. case fetch c of
            Inl e \<Rightarrow> placeholder c
          | Inr nd \<Rightarrow>
              pulse_record c
                (if c = ''Sports'' then sports_calculate_pulse_score fromiso clock (Some nd)
                 else calculate_pulse_score fromiso clock (Some nd)) nd stamp days) pullers"
    by (rule map_cong) (auto simp add: get_pulse_cases split: sum.splits)
  finally show ?thesis .
qed

text \<open>Every score that the collection returns is a multiple of 0.01 between 0 and 100.\<close>

lemma pulse_record_on_grid:
  assumes "\<exists>x. 0 \<le> x \<and> x \<le> 100 \<and> s = py_round2 x"
  shows "\<exists>k::int. 0 \<le> k \<and> k \<le> 10000
      \<and> pulse_record c s nd stamp days ''pulse_score'' = Some (PyNum (Fin (of_int k / 100)))"
proof -
  from assms obtain x where "0 \<le> x" "x \<le> 100" and s: "s = py_round2 x" by blast
  from py_round2_on_grid [OF this(1,2)] s show ?thesis
    by (simp add: pulse_record_has_score)
qed

lemma collect_all_data_on_grid:
  "\<forall>d\<in>set (collect_all_data fetch fromiso clock stamp days).
     \<exists>k::int. 0 \<le> k \<and> k \<le> 10000 \<and> d ''pulse_score'' = Some (PyNum (Fin (of_int k / 100)))"
proof
  fix d assume "d \<in> set (collect_all_data fetch fromiso clock stamp days)"
  then obtain c where d: "d = (case fetch c of
            Inl e \<Rightarrow> placeholder c
          | Inr nd \<Rightarrow>
              pulse_record c
                (if c = ''Sports'' then sports_calculate_pulse_score fromiso clock (Some nd)
                 else calculate_pulse_score fromiso clock (Some nd)) nd stamp days)"
    unfolding collect_all_data_map by auto
  show "\<exists>k::int. 0 \<le> k \<and> k \<le> 10000 \<and> d ''pulse_score'' = Some (PyNum (Fin (of_int k / 100)))"
  proof (cases "fetch c")
    case (Inl e)
    with d have "d ''pulse_score'' = Some (PyNum (Fin (of_int 0 / 100)))"
      by (simp add: placeholder_def)
    then show ?thesis by (intro exI [of _ 0]) simp
  next
    case (Inr nd)
    with d show ?thesis
      using calculate_pulse_score_shape sports_calculate_pulse_score_shape
      by (simp add: pulse_record_on_grid)
  qed
qed

text \<open>
  Claim C9. Whatever the requests of the eight categories do, \<^verbatim>\<open>collect_all_data\<close>
  returns exactly one record per category, in the order Sports, Politics, Tech/Science,
  Economy, Trends, Entertainment, Health, Environment. The record of a category whose
  request failed is the placeholder with that category's name and with pulse score,
  article count and total results 0; the other categories keep their scored records.
\<close>

theorem collect_all_data_one_entry_per_category:
  "collect_all_data fetch fromiso clock stamp days =
     map (\<lambda>c. case fetch c of
            Inl e \<Rightarrow> placeholder c
          | Inr nd \<Rightarrow>
              pulse_record c
                (if c = ''Sports'' then sports_calculate_pulse_score fromiso clock (Some nd)
                 else calculate_pulse_score fromiso clock (Some nd)) nd stamp days)
       [''Sports'', ''Politics'', ''Tech/Science'', ''Economy'', ''Trends'',
        ''Entertainment'', ''Health'', ''Environment'']
   \<and> length (collect_all_data fetch fromiso clock stamp days) = 8
   \<and> map (\<lambda>d. d ''category'') (collect_all_data fetch fromiso clock stamp days) =
       [Some (PyStr ''Sports''), Some (PyStr ''Politics''), Some (PyStr ''Tech/Science''),
        Some (PyStr ''Economy''), Some (PyStr ''Trends''), Some (PyStr ''Entertainment''),
        Some (PyStr ''Health''), Some (PyStr ''Environment'')]
   \<and> placeholder c ''pulse_score'' = Some (PyNum (Fin 0))
   \<and> placeholder c ''article_count'' = Some (PyNum (Fin 0))
   \<and> placeholder c ''total_results'' = Some (PyNum (Fin 0))
   \<and> placeholder c ''category'' = Some (PyStr c)"
proof -
  have m: "collect_all_data fetch fromiso clock stamp days =
     map (\<lambda>c. case fetch c of
            Inl e \<Rightarrow> placeholder c
          | Inr nd \<Rightarrow>
              pulse_record c
                (if c = ''Sports'' then sports_calculate_pulse_score fromiso clock (Some nd)
                 else calculate_pulse_score fromiso clock (Some nd)) nd stamp days)
       [''Sports'', ''Politics'', ''Tech/Science'', ''Economy'', ''Trends'',
        ''Entertainment'', ''Health'', ''Environment'']"
    using collect_all_data_map [of fetch fromiso clock stamp days] by (simp only: pullers_def)
  have l: "length (collect_all_data fetch fromiso clock stamp days) = 8"
    by (simp add: collect_all_data_map pullers_def)
  have c: "map (\<lambda>d. d ''category'') (collect_all_data fetch fromiso clock stamp days) =
       [Some (PyStr ''Sports''), Some (PyStr ''Politics''), Some (PyStr ''Tech/Science''),
        Some (PyStr ''Economy''), Some (PyStr ''Trends''), Some (PyStr ''Entertainment''),
        Some (PyStr ''Health''), Some (PyStr ''Environment'')]"
    by (simp add: collect_all_data_map pullers_def pulse_record_category placeholder_category
        split: sum.splits)
  have p: "placeholder c ''pulse_score'' = Some (PyNum (Fin 0))
   \<and> placeholder c ''article_count'' = Some (PyNum (Fin 0))
   \<and> placeholder c ''total_results'' = Some (PyNum (Fin 0))
   \<and> placeholder c ''category'' = Some (PyStr c)"
    by (simp add: placeholder_def)
  from m l c p show ?thesis by simp
qed

section \<open>Normalization\<close>

lemma foldl_fl_add_Fin: "foldl fl_add (Fin a) (map Fin xs) = Fin (a + sum_list xs)"
  by (induction xs arbitrary: a) (simp_all add: add.assoc)

lemma py_max_nonempty: "xs \<noteq> [] \<Longrightarrow> \<exists>m. py_max xs = Inr m"
  by (cases xs) (simp_all add: py_max_def)

lemma py_min_nonempty: "xs \<noteq> [] \<Longrightarrow> \<exists>m. py_min xs = Inr m"
  by (cases xs) (simp_all add: py_min_def)

lemma lookup_scores_numeric:
  "\<forall>d\<in>set data. \<exists>x. d ''pulse_score'' = Some (PyNum x) \<Longrightarrow>
   lookup_scores data = Inr (map (\<lambda>d. PyNum (score_value d)) data)"
  by (induction data) (auto simp add: score_value_def)

lemma as_numbers_PyNum: "as_numbers (map (\<lambda>d. PyNum (f d)) data) = Inr (map f data)"
  by (induction data) simp_all

lemma average_score_numeric:
  assumes "data \<noteq> []" and "\<forall>d\<in>set data. \<exists>x. d ''pulse_score'' = Some (PyNum x)"
  shows "average_score data = Inr (np_mean (map score_value data))"
proof -
  from assms(1) have ne: "map score_value data \<noteq> []" by simp
  from py_max_nonempty [OF ne] obtain mx where mx: "py_max (map score_value data) = Inr mx" by blast
  from py_min_nonempty [OF ne] obtain mn where mn: "py_min (map score_value data) = Inr mn" by blast
  show ?thesis
    by (simp add: average_score_def lookup_scores_numeric [OF assms(2)] as_numbers_PyNum mx mn)
qed

lemma score_value_Fin: "d ''pulse_score'' = Some (PyNum (Fin x)) \<Longrightarrow> score_value d = Fin x"
  by (simp add: score_value_def)

lemma raw_score_Fin: "d ''pulse_score'' = Some (PyNum (Fin x)) \<Longrightarrow> raw_score d = x"
  by (simp add: raw_score_def)

lemma np_mean_finite:
  assumes "data \<noteq> []" and "\<forall>d\<in>set data. \<exists>x. d ''pulse_score'' = Some (PyNum (Fin x))"
  shows "np_mean (map score_value data) = Fin (mean_raw data)"
proof -
  from assms(2) have "map score_value data = map Fin (map raw_score data)"
    by (auto simp add: score_value_Fin raw_score_Fin)
  moreover from assms(1) have "real (length data) \<noteq> 0" by simp
  ultimately show ?thesis
    by (simp add: np_mean_def mean_raw_def foldl_fl_add_Fin del: map_map)
qed

lemma normalize_entry_numeric:
  "d ''pulse_score'' = Some (PyNum x) \<Longrightarrow> normalize_entry avg d = Inr (normalized_record avg d)"
  by (simp add: normalize_entry_def normalized_record_def score_value_def)

lemma normalize_entry_Inr:
  "normalize_entry avg d = Inr nd \<Longrightarrow>
   nd = normalized_record avg d \<and> (\<exists>x. d ''pulse_score'' = Some (PyNum x))"
  by (auto simp add: normalize_entry_def normalized_record_def score_value_def
      split: option.splits pyval.splits)

lemma normalize_loop_numeric:
  "\<forall>d\<in>set ds. \<exists>x. d ''pulse_score'' = Some (PyNum x) \<Longrightarrow>
   normalize_loop avg ds acc = Inr (acc @ map (normalized_record avg) ds)"
proof (induction ds arbitrary: acc)
  case Nil
  then show ?case by simp
next
  case (Cons d ds)
  from Cons.prems obtain x where "d ''pulse_score'' = Some (PyNum x)" by auto
  then have "normalize_entry avg d = Inr (normalized_record avg d)"
    by (rule normalize_entry_numeric)
  moreover from Cons.prems have "\<forall>d\<in>set ds. \<exists>x. d ''pulse_score'' = Some (PyNum x)" by simp
  ultimately show ?case by (simp add: Cons.IH)
qed

lemma normalize_loop_Inr:
  "normalize_loop avg ds acc = Inr out \<Longrightarrow> out = acc @ map (normalized_record avg) ds"
proof (induction ds arbitrary: acc)
  case Nil
  then show ?case by simp
next
  case (Cons d ds)
  then obtain nd where nd: "normalize_entry avg d = Inr nd"
    and rest: "normalize_loop avg ds (acc @ [nd]) = Inr out"
    by (auto split: sum.splits)
  from nd have "nd = normalized_record avg d" by (simp add: normalize_entry_Inr)
  with Cons.IH [OF rest] show ?case by simp
qed

lemma normalize_scores_relative_numeric:
  assumes "data \<noteq> []" and "\<forall>d\<in>set data. \<exists>x. d ''pulse_score'' = Some (PyNum x)"
  shows "normalize_scores_relative data =
           Inr (map (normalized_record (np_mean (map score_value data))) data)"
  using assms
  by (simp add: normalize_scores_relative_def average_score_numeric normalize_loop_numeric)

lemma normalize_scores_relative_Inr:
  assumes "normalize_scores_relative data = Inr out"
  shows "length out = length data
     \<and> (\<exists>avg. out = map (normalized_record avg) data)"
proof (cases "data = []")
  case True
  with assms show ?thesis by (simp add: normalize_scores_relative_def)
next
  case False
  with assms obtain avg where "normalize_loop avg data [] = Inr out"
    by (auto simp add: normalize_scores_relative_def split: sum.splits)
  then have "out = map (normalized_record avg) data"
    using normalize_loop_Inr by fastforce
  then show ?thesis by auto
qed

lemma new_score_zero: "new_score (Fin 0) (Fin 0) = Fin 100"
  by (simp add: new_score_def fl_sub_def signed_inf_def py_min2_def)





lemma normalized_record_original:
  "d ''pulse_score'' = Some (PyNum x) \<Longrightarrow>
   normalized_record avg d ''original_score'' = d ''pulse_score''"
  by (simp add: normalized_record_def score_value_def)

lemma normalized_record_other:
  "k \<noteq> ''pulse_score'' \<Longrightarrow> k \<noteq> ''original_score'' \<Longrightarrow> normalized_record avg d k = d k"
  by (simp add: normalized_record_def)

lemma normalized_record_zero:
  "d ''pulse_score'' = Some (PyNum (Fin 0)) \<Longrightarrow>
   normalized_record (Fin 0) d =
     d(''pulse_score'' \<mapsto> PyNum (Fin 100), ''original_score'' \<mapsto> PyNum (Fin 0))"
  by (simp add: normalized_record_def score_value_Fin new_score_zero py_round2_100)

lemma sum_list_zero: "\<forall>d\<in>set data. f d = (0::real) \<Longrightarrow> sum_list (map f data) = 0"
  by (induction data) simp_all

text \<open>
  Claim C3 says that a list whose scores are all zero is returned with every normalized
  score 0. The code has no guard for a zero mean: \<^verbatim>\<open>(0 - 0) / 0\<close> is NaN in numpy (a
  warning, no exception), the boosted score is NaN, \<^verbatim>\<open>min(100, nan)\<close> is 100 because
  the comparison with NaN is false, and every record gets the pulse score 100. No error
  is raised; the scores are not returned unchanged.
\<close>

theorem normalize_all_zero_gives_100:
  assumes "data \<noteq> []"
    and "\<forall>d\<in>set data. d ''pulse_score'' = Some (PyNum (Fin 0))"
  shows "normalize_scores_relative data =
           Inr (map (\<lambda>d. d(''pulse_score'' \<mapsto> PyNum (Fin 100),
                            ''original_score'' \<mapsto> PyNum (Fin 0))) data)"
proof -
  from assms(2) have num: "\<forall>d\<in>set data. \<exists>x. d ''pulse_score'' = Some (PyNum x)" by blast
  from assms(2) have fin: "\<forall>d\<in>set data. \<exists>x. d ''pulse_score'' = Some (PyNum (Fin x))" by blast
  from assms(2) have "\<forall>d\<in>set data. raw_score d = 0"
    by (simp add: raw_score_Fin)
  then have "sum_list (map raw_score data) = 0" by (rule sum_list_zero)
  then have "mean_raw data = 0" by (simp add: mean_raw_def)
  with np_mean_finite [OF assms(1) fin] have avg: "np_mean (map score_value data) = Fin 0"
    by simp
  have "map (normalized_record (Fin 0)) data =
      map (\<lambda>d. d(''pulse_score'' \<mapsto> PyNum (Fin 100), ''original_score'' \<mapsto> PyNum (Fin 0))) data"
  proof (rule map_cong [OF refl])
    fix d assume "d \<in> set data"
    with assms(2) have "d ''pulse_score'' = Some (PyNum (Fin 0))" by blast
    then show "normalized_record (Fin 0) d =
        d(''pulse_score'' \<mapsto> PyNum (Fin 100), ''original_score'' \<mapsto> PyNum (Fin 0))"
      by (rule normalized_record_zero)
  qed
  with normalize_scores_relative_numeric [OF assms(1) num] avg show ?thesis by simp
qed


text \<open>
  Claim C10. The empty list is returned as it is, without error, on the value level and
  on the store level. The statistics are not computed on it: \<^verbatim>\<open>max\<close> and \<^verbatim>\<open>min\<close>
  of the empty list raise ValueError, which would have been the result.
\<close>

theorem normalize_empty:
  "normalize_scores_relative [] = Inr []
   \<and> normalize_scores_relative_refs h [] = Inr (h, [])
   \<and> py_max [] = Inl ValueError
   \<and> py_min [] = Inl ValueError
   \<and> average_score [] = Inl ValueError"
  by (simp add: normalize_scores_relative_def normalize_scores_relative_refs_def
      py_max_def py_min_def average_score_def)

lemma upt_from_Suc: "[n..<n + Suc k] = n # [Suc n..<Suc n + k]"
  by (subst upt_rec) simp

lemma normalize_loop_refs_Inr:
  assumes "normalize_loop_refs avg h rs acc = Inr (h', out)"
    and "\<forall>r\<in>set rs. r < length h"
  shows "h' = h @ map (\<lambda>r. normalized_record avg (h ! r)) rs
     \<and> out = acc @ [length h ..< length h + length rs]
     \<and> (\<forall>r\<in>set rs. \<exists>x. (h ! r) ''pulse_score'' = Some (PyNum x))"
  using assms
proof (induction rs arbitrary: h acc)
  case Nil
  then show ?case by simp
next
  case (Cons r rs)
  from Cons.prems(1) obtain nd where nd: "normalize_entry avg (h ! r) = Inr nd"
    and rest: "normalize_loop_refs avg (h @ [nd]) rs (acc @ [length h]) = Inr (h', out)"
    by (auto split: sum.splits)
  from nd have ndr: "nd = normalized_record avg (h ! r)"
    and num: "\<exists>x. (h ! r) ''pulse_score'' = Some (PyNum x)"
    by (simp_all add: normalize_entry_Inr)
  from Cons.prems(2) have valid: "\<forall>r\<in>set rs. r < length (h @ [nd])"
    by (auto simp add: less_Suc_eq)
  from Cons.prems(2) have same: "\<forall>r\<in>set rs. (h @ [nd]) ! r = h ! r"
    by (simp add: nth_append)
  from Cons.IH [OF rest valid]
  have h': "h' = (h @ [nd]) @ map (\<lambda>r. normalized_record avg ((h @ [nd]) ! r)) rs"
    and out: "out = (acc @ [length h]) @ [length (h @ [nd]) ..< length (h @ [nd]) + length rs]"
    and nums: "\<forall>r\<in>set rs. \<exists>x. ((h @ [nd]) ! r) ''pulse_score'' = Some (PyNum x)"
    by simp_all
  from same have m: "map (\<lambda>r. normalized_record avg ((h @ [nd]) ! r)) rs
      = map (\<lambda>r. normalized_record avg (h ! r)) rs"
    by simp
  have u: "[length h ..< length h + length (r # rs)]
      = length h # [length (h @ [nd]) ..< length (h @ [nd]) + length rs]"
    using upt_from_Suc [of "length h" "length rs"] by simp
  from h' m ndr have "h' = h @ map (\<lambda>r. normalized_record avg (h ! r)) (r # rs)" by simp
  moreover from out u have "out = acc @ [length h ..< length h + length (r # rs)]" by simp
  moreover from num nums same
  have "\<forall>r\<in>set (r # rs). \<exists>x. (h ! r) ''pulse_score'' = Some (PyNum x)" by simp
  ultimately show ?case by simp
qed

lemma normalize_scores_relative_refs_Inr:
  assumes "normalize_scores_relative_refs h data = Inr (h', out)"
    and "\<forall>r\<in>set data. r < length h"
  shows "\<exists>avg. h' = h @ map (\<lambda>r. normalized_record avg (h ! r)) data
     \<and> out = (if data = [] then [] else [length h ..< length h + length data])
     \<and> (\<forall>r\<in>set data. \<exists>x. (h ! r) ''pulse_score'' = Some (PyNum x))"
proof (cases "data = []")
  case True
  with assms(1) show ?thesis by (simp add: normalize_scores_relative_refs_def)
next
  case False
  with assms(1) obtain avg where "normalize_loop_refs avg h data [] = Inr (h', out)"
    by (auto simp add: normalize_scores_relative_refs_def split: sum.splits)
  from normalize_loop_refs_Inr [OF this assms(2)] False show ?thesis by auto
qed

text \<open>
  Claim C6. When normalization returns, it returns one reference per input reference;
  every dictionary of the input store is unchanged; every returned reference is a newly
  allocated dictionary whose \<^verbatim>\<open>original_score\<close> is the \<^verbatim>\<open>pulse_score\<close> of the
  corresponding input dictionary and whose other keys, \<^verbatim>\<open>pulse_score\<close> apart (category,
  article_count, total_results, timestamp, days_analyzed and any other), have the
  values of the input dictionary.
\<close>

theorem normalize_builds_new_records:
  assumes "normalize_scores_relative_refs h data = Inr (h', out)"
    and "\<forall>r\<in>set data. r < length h"
  shows "length out = length data
     \<and> (\<forall>r<length h. h' ! r = h ! r)
     \<and> (\<forall>i<length data.
           length h \<le> out ! i \<and> out ! i < length h'
         \<and> (h' ! (out ! i)) ''original_score'' = (h ! (data ! i)) ''pulse_score''
         \<and> (\<forall>k. k \<noteq> ''pulse_score'' \<and> k \<noteq> ''original_score''
                 \<longrightarrow> (h' ! (out ! i)) k = (h ! (data ! i)) k))"
proof -
  from normalize_scores_relative_refs_Inr [OF assms] obtain avg
    where h': "h' = h @ map (\<lambda>r. normalized_record avg (h ! r)) data"
      and out: "out = (if data = [] then [] else [length h ..< length h + length data])"
      and num: "\<forall>r\<in>set data. \<exists>x. (h ! r) ''pulse_score'' = Some (PyNum x)"
    by blast
  from out have len: "length out = length data" by simp
  from h' have old: "\<forall>r<length h. h' ! r = h ! r" by (simp add: nth_append)
  have new: "length h \<le> out ! i \<and> out ! i < length h'
         \<and> (h' ! (out ! i)) ''original_score'' = (h ! (data ! i)) ''pulse_score''
         \<and> (\<forall>k. k \<noteq> ''pulse_score'' \<and> k \<noteq> ''original_score''
                 \<longrightarrow> (h' ! (out ! i)) k = (h ! (data ! i)) k)"
    if i: "i < length data" for i
  proof -
    from i out have oi: "out ! i = length h + i" by auto
    from i h' oi have cell: "h' ! (out ! i) = normalized_record avg (h ! (data ! i))"
      by (simp add: nth_append)
    from i num obtain x where "(h ! (data ! i)) ''pulse_score'' = Some (PyNum x)"
      by (meson nth_mem)
    then have "normalized_record avg (h ! (data ! i)) ''original_score''
        = (h ! (data ! i)) ''pulse_score''"
      by (rule normalized_record_original)
    with cell oi i h' show ?thesis by (simp add: normalized_record_other)
  qed
  from len old new show ?thesis by blast
qed

lemma normalize_refs_values:
  assumes "normalize_scores_relative_refs h data = Inr (h', out)"
    and "\<forall>r\<in>set data. r < length h"
  shows "normalize_scores_relative (map (\<lambda>r. h ! r) data) = Inr (map (\<lambda>r. h' ! r) out)"
proof (cases "data = []")
  case True
  with assms(1) show ?thesis
    by (simp add: normalize_scores_relative_refs_def normalize_scores_relative_def)
next
  case False
  with assms(1) obtain avg where avg: "average_score (map (\<lambda>r. h ! r) data) = Inr avg"
    and loop: "normalize_loop_refs avg h data [] = Inr (h', out)"
    by (auto simp add: normalize_scores_relative_refs_def split: sum.splits)
  from normalize_loop_refs_Inr [OF loop assms(2)]
  have h': "h' = h @ map (\<lambda>r. normalized_record avg (h ! r)) data"
    and out: "out = [length h ..< length h + length data]"
    and num: "\<forall>r\<in>set data. \<exists>x. (h ! r) ''pulse_score'' = Some (PyNum x)"
    by simp_all
  from num have "\<forall>d\<in>set (map (\<lambda>r. h ! r) data). \<exists>x. d ''pulse_score'' = Some (PyNum x)"
    by simp
  then have "normalize_loop avg (map (\<lambda>r. h ! r) data) [] =
      Inr ([] @ map (normalized_record avg) (map (\<lambda>r. h ! r) data))"
    by (rule normalize_loop_numeric)
  moreover have "map (\<lambda>r. h' ! r) out = map (normalized_record avg) (map (\<lambda>r. h ! r) data)"
    unfolding h' out by (rule nth_equalityI) (simp_all add: nth_append)
  ultimately show ?thesis using False avg by (simp add: normalize_scores_relative_def)
qed


lemma all_failed: "collect_all_data (\<lambda>c. Inl RequestError) Map.empty 0 [] 7 = map placeholder pullers"
  by (simp add: collect_all_data_map)

text \<open>
  A run in which every request fails collects eight placeholders; normalization turns
  each of their scores into 100.
\<close>

theorem normalize_all_zero_gives_100_witness:
  "collect_all_data (\<lambda>c. Inl RequestError) Map.empty 0 [] 7 = map placeholder pullers
   \<and> normalize_scores_relative (collect_all_data (\<lambda>c. Inl RequestError) Map.empty 0 [] 7) =
       Inr (map (\<lambda>d. d(''pulse_score'' \<mapsto> PyNum (Fin 100), ''original_score'' \<mapsto> PyNum (Fin 0)))
              (map placeholder pullers))"
proof -
  have ne: "map placeholder pullers \<noteq> []" by (simp add: pullers_def)
  have z: "\<forall>d\<in>set (map placeholder pullers). d ''pulse_score'' = Some (PyNum (Fin 0))"
    by (simp add: placeholder_def)
  from normalize_all_zero_gives_100 [OF ne z] all_failed show ?thesis by simp
qed


lemma refs_example:
  "normalize_scores_relative_refs
      [[''category'' \<mapsto> PyStr ''Sports'', ''pulse_score'' \<mapsto> PyNum (Fin 80)],
       [''category'' \<mapsto> PyStr ''Politics'', ''pulse_score'' \<mapsto> PyNum (Fin 20)]] [0, 1]
   = Inr ([[''category'' \<mapsto> PyStr ''Sports'', ''pulse_score'' \<mapsto> PyNum (Fin 80)],
           [''category'' \<mapsto> PyStr ''Politics'', ''pulse_score'' \<mapsto> PyNum (Fin 20)],
           [''category'' \<mapsto> PyStr ''Sports'', ''pulse_score'' \<mapsto> PyNum (Fin 100),
            ''original_score'' \<mapsto> PyNum (Fin 80)],
           [''category'' \<mapsto> PyStr ''Politics'', ''pulse_score'' \<mapsto> PyNum (Fin (64 / 10)),
            ''original_score'' \<mapsto> PyNum (Fin 20)]], [2, 3])"
  by (simp add: normalize_scores_relative_refs_def average_score_def py_max_def py_min_def
      np_mean_def normalize_entry_def new_score_def fl_sub_def py_min2_def py_max2_def
      py_round2_def round_half_even_def)

text \<open>Two records in a store of two: the results are the new cells 2 and 3.\<close>

theorem normalize_builds_new_records_witness:
  "normalize_scores_relative_refs
      [[''category'' \<mapsto> PyStr ''Sports'', ''pulse_score'' \<mapsto> PyNum (Fin 80)],
       [''category'' \<mapsto> PyStr ''Politics'', ''pulse_score'' \<mapsto> PyNum (Fin 20)]] [0, 1]
   = Inr ([[''category'' \<mapsto> PyStr ''Sports'', ''pulse_score'' \<mapsto> PyNum (Fin 80)],
           [''category'' \<mapsto> PyStr ''Politics'', ''pulse_score'' \<mapsto> PyNum (Fin 20)],
           [''category'' \<mapsto> PyStr ''Sports'', ''pulse_score'' \<mapsto> PyNum (Fin 100),
            ''original_score'' \<mapsto> PyNum (Fin 80)],
           [''category'' \<mapsto> PyStr ''Politics'', ''pulse_score'' \<mapsto> PyNum (Fin (64 / 10)),
            ''original_score'' \<mapsto> PyNum (Fin 20)]], [2, 3])
   \<and> length [2 :: nat, 3] = length [0 :: nat, 1]"
proof -
  have valid: "\<forall>r\<in>set [0 :: nat, 1].
      r < length [[''category'' \<mapsto> PyStr ''Sports'', ''pulse_score'' \<mapsto> PyNum (Fin 80)],
                  [''category'' \<mapsto> PyStr ''Politics'', ''pulse_score'' \<mapsto> PyNum (Fin 20)]]"
    by simp
  from normalize_builds_new_records [OF refs_example valid] refs_example
  show ?thesis by simp
qed

end
